theory Spec2Isabelle
  imports Complex_Main "HOL-Library.Log_Nat" "HOL-Library.Signed_Division"
begin

section \<open>JavaScript values used by the launchpad code\<close>

subsection \<open>The \<open>number\<close> type: IEEE 754 binary64\<close>

text \<open>
  \<^verbatim>\<open>calculatePriceImpact\<close> and \<^verbatim>\<open>calculateSlippage\<close> convert their \<^verbatim>\<open>bigint\<close>
  arguments with \<^verbatim>\<open>Number(...)\<close> and compute in JavaScript numbers, so their results
  are those of binary64 arithmetic: every operation returns the exact result rounded to
  the nearest representable value, ties to the even significand, \<open>\<plusminus>Infinity\<close> beyond the
  largest finite value, and \<open>NaN\<close> for \<open>0/0\<close>, \<open>Infinity/Infinity\<close>, \<open>Infinity - Infinity\<close>
  and \<open>0 * Infinity\<close>.

  A finite number is its exact rational value. The two zeros are one value here: the
  sign of a zero can only show in the sign of an infinity produced by a division, and
  both functions below remove it (\<^verbatim>\<open>Math.abs\<close>, \<^verbatim>\<open>BigInt\<close>) before they return.
\<close>

datatype number = Finite rat | PosInfinity | NegInfinity | NaN

definition pow2 :: "int \<Rightarrow> rat" where
  "pow2 k = (if 0 \<le> k then 2 ^ nat k else 1 / 2 ^ nat (- k))"

text \<open>The binary exponent \<open>\<lfloor>log\<^sub>2 a\<rfloor>\<close> of a positive rational.\<close>

definition ilog2 :: "rat \<Rightarrow> int" where
  "ilog2 a = (if 1 \<le> a then bitlen \<lfloor>a\<rfloor> - 1 else - bitlen (\<lceil>1 / a\<rceil> - 1))"

definition round_half_even :: "rat \<Rightarrow> int" where
  "round_half_even t =
     (let n = \<lfloor>t\<rfloor>; r = t - of_int n
      in if r < 1 / 2 then n else if 1 / 2 < r then n + 1 else if even n then n else n + 1)"

text \<open>
  Rounding a positive magnitude: the exponent is at least \<open>-1022\<close> (below it the
  numbers are subnormal and share the quantum \<open>2\<^sup>-\<^sup>1\<^sup>0\<^sup>7\<^sup>4\<close>), the significand has 53 bits,
  and \<open>None\<close> is overflow: the rounded value would be \<open>2\<^sup>1\<^sup>0\<^sup>2\<^sup>4\<close> or more.
\<close>

definition round_magnitude :: "rat \<Rightarrow> rat option" where
  "round_magnitude a =
     (let e = max (ilog2 a) (- 1022)
      in if 1024 \<le> e then None
         else let q = pow2 (e - 52); m = round_half_even (a / q)
              in if e = 1023 \<and> 2 ^ 53 \<le> m then None else Some (of_int m * q))"

definition round_binary64 :: "rat \<Rightarrow> number" where
  "round_binary64 x =
     (if x = 0 then Finite 0
      else case round_magnitude \<bar>x\<bar> of
             None \<Rightarrow> if x < 0 then NegInfinity else PosInfinity
           | Some r \<Rightarrow> Finite (if x < 0 then - r else r))"

fun number_mul :: "number \<Rightarrow> number \<Rightarrow> number" where
  "number_mul NaN _ = NaN"
| "number_mul _ NaN = NaN"
| "number_mul (Finite a) (Finite b) = round_binary64 (a * b)"
| "number_mul (Finite a) PosInfinity =
     (if a = 0 then NaN else if 0 < a then PosInfinity else NegInfinity)"
| "number_mul (Finite a) NegInfinity =
     (if a = 0 then NaN else if 0 < a then NegInfinity else PosInfinity)"
| "number_mul PosInfinity (Finite b) =
     (if b = 0 then NaN else if 0 < b then PosInfinity else NegInfinity)"
| "number_mul NegInfinity (Finite b) =
     (if b = 0 then NaN else if 0 < b then NegInfinity else PosInfinity)"
| "number_mul PosInfinity PosInfinity = PosInfinity"
| "number_mul PosInfinity NegInfinity = NegInfinity"
| "number_mul NegInfinity PosInfinity = NegInfinity"
| "number_mul NegInfinity NegInfinity = PosInfinity"

fun number_div :: "number \<Rightarrow> number \<Rightarrow> number" where
  "number_div NaN _ = NaN"
| "number_div _ NaN = NaN"
| "number_div (Finite a) (Finite b) =
     (if b = 0 then (if a = 0 then NaN else if 0 < a then PosInfinity else NegInfinity)
      else round_binary64 (a / b))"
| "number_div (Finite a) _ = Finite 0"
| "number_div PosInfinity (Finite b) = (if 0 \<le> b then PosInfinity else NegInfinity)"
| "number_div NegInfinity (Finite b) = (if 0 \<le> b then NegInfinity else PosInfinity)"
| "number_div _ _ = NaN"

fun number_sub :: "number \<Rightarrow> number \<Rightarrow> number" where
  "number_sub NaN _ = NaN"
| "number_sub _ NaN = NaN"
| "number_sub (Finite a) (Finite b) = round_binary64 (a - b)"
| "number_sub (Finite a) PosInfinity = NegInfinity"
| "number_sub (Finite a) NegInfinity = PosInfinity"
| "number_sub PosInfinity PosInfinity = NaN"
| "number_sub NegInfinity NegInfinity = NaN"
| "number_sub PosInfinity _ = PosInfinity"
| "number_sub NegInfinity _ = NegInfinity"

text \<open>The comparison \<^verbatim>\<open>x >= y\<close>: false whenever an operand is \<open>NaN\<close>.\<close>

fun number_ge :: "number \<Rightarrow> number \<Rightarrow> bool" where
  "number_ge NaN _ = False"
| "number_ge _ NaN = False"
| "number_ge (Finite a) (Finite b) = (b \<le> a)"
| "number_ge PosInfinity _ = True"
| "number_ge _ NegInfinity = True"
| "number_ge _ _ = False"

fun Math_abs :: "number \<Rightarrow> number" where
  "Math_abs (Finite a) = Finite \<bar>a\<bar>"
| "Math_abs PosInfinity = PosInfinity"
| "Math_abs NegInfinity = PosInfinity"
| "Math_abs NaN = NaN"

fun Math_floor :: "number \<Rightarrow> number" where
  "Math_floor (Finite a) = Finite (of_int \<lfloor>a\<rfloor>)"
| "Math_floor x = x"

text \<open>A number is falsy when it is \<open>0\<close> or \<open>NaN\<close>; a \<^verbatim>\<open>bigint\<close> when it is \<open>0n\<close>.\<close>

fun truthy :: "number \<Rightarrow> bool" where
  "truthy (Finite a) = (a \<noteq> 0)"
| "truthy NaN = False"
| "truthy _ = True"

subsection \<open>Exceptions, \<open>bigint\<close> conversions\<close>

text \<open>
  A call either returns (\<open>Inr\<close>) or throws (\<open>Inl\<close>). The code modelled here throws
  \<open>RangeError\<close> itself (from \<^verbatim>\<open>BigInt(x)\<close> when \<open>x\<close> is not an integer, and from a
  \<^verbatim>\<open>bigint\<close> division by \<open>0n\<close>); \<open>VendorError\<close> is an exception raised inside the
  Flashnet SDK. \<open>InvalidParameters\<close>, \<open>CalculationFailed\<close> and \<open>DivisionByZero\<close> are
  the failures named by the specification; no function of the repository raises them.
\<close>

datatype error =
    RangeError
  | VendorError string
  | InvalidParameters
  | CalculationFailed
  | DivisionByZero

text \<open>\<^verbatim>\<open>Number(n)\<close> for a \<^verbatim>\<open>bigint\<close> \<open>n\<close>.\<close>

definition Number :: "int \<Rightarrow> number" where
  "Number n = round_binary64 (of_int n)"

text \<open>\<^verbatim>\<open>BigInt(x)\<close> for a number \<open>x\<close>.\<close>

fun BigInt :: "number \<Rightarrow> error + int" where
  "BigInt (Finite a) = (if of_int \<lfloor>a\<rfloor> = a then Inr \<lfloor>a\<rfloor> else Inl RangeError)"
| "BigInt _ = Inl RangeError"

text \<open>\<^verbatim>\<open>a / b\<close> on \<^verbatim>\<open>bigint\<close>: the quotient truncated toward zero.\<close>

definition bigint_div :: "int \<Rightarrow> int \<Rightarrow> error + int" where
  "bigint_div a b = (if b = 0 then Inl RangeError else Inr (a sdiv b))"

text \<open>\<^verbatim>\<open>n.toString()\<close> for a \<^verbatim>\<open>bigint\<close>: decimal digits, with a leading minus sign.\<close>

definition digit_char :: "nat \<Rightarrow> char" where
  "digit_char d = char_of (48 + d)"

function nat_toString :: "nat \<Rightarrow> string" where
  "nat_toString n =
     (if n < 10 then [digit_char n] else nat_toString (n div 10) @ [digit_char (n mod 10)])"
  by pat_completeness auto
termination
  by (relation "measure id") auto

declare nat_toString.simps [simp del]

definition bigint_toString :: "int \<Rightarrow> string" where
  "bigint_toString k =
     (if k < 0 then CHR ''-'' # nat_toString (nat (- k)) else nat_toString (nat k))"

section \<open>Formatting utilities\<close>

text \<open>
  \<^verbatim>\<open>
  export function calculatePriceImpact(amountIn: bigint, amountOut: bigint,
                                       reserveIn: bigint, reserveOut: bigint): number {
    const expectedOut = (Number(amountIn) * Number(reserveOut)) / Number(reserveIn);
    const actualOut = Number(amountOut);
    const impact = ((expectedOut - actualOut) / expectedOut) * 100;
    return Math.abs(impact);
  }
  \<close>
\<close>

definition expectedOut :: "int \<Rightarrow> int \<Rightarrow> int \<Rightarrow> number" where
  "expectedOut amountIn reserveIn reserveOut =
     number_div (number_mul (Number amountIn) (Number reserveOut)) (Number reserveIn)"

definition calculatePriceImpact :: "int \<Rightarrow> int \<Rightarrow> int \<Rightarrow> int \<Rightarrow> error + number" where
  "calculatePriceImpact amountIn amountOut reserveIn reserveOut =
     (let expected = expectedOut amountIn reserveIn reserveOut;
          actualOut = Number amountOut;
          impact = number_mul (number_div (number_sub expected actualOut) expected) (Finite 100)
      in Inr (Math_abs impact))"

text \<open>
  \<^verbatim>\<open>
  export function calculateSlippage(amount: bigint, slippageBps: number): bigint {
    const slippagePercent = slippageBps / 10000;
    const slippageAmount = Number(amount) * slippagePercent;
    return amount - BigInt(Math.floor(slippageAmount));
  }
  \<close>
\<close>

definition calculateSlippage :: "int \<Rightarrow> number \<Rightarrow> error + int" where
  "calculateSlippage amount slippageBps =
     (let slippagePercent = number_div slippageBps (Finite 10000);
          slippageAmount = number_mul (Number amount) slippagePercent
      in case BigInt (Math_floor slippageAmount) of
           Inl err \<Rightarrow> Inl err
         | Inr k \<Rightarrow> Inr (amount - k))"

section \<open>The launchpad client\<close>

subsection \<open>Slippage protection in \<open>executeSwap\<close>\<close>

text \<open>
  \<^verbatim>\<open>
  const slippageTolerance = params.maxSlippageBps || 100; // Default 1% (100 BPS)
  const slippageMultiplier = BigInt(10000 - slippageTolerance);
  const minAmountOut = (BigInt(simulation.amountOut) * slippageMultiplier) / BigInt(10000);
  \<close>
  \<open>maxSlippageBps\<close> is \<open>None\<close> when the field is absent. \<open>amountOut\<close> below is the
  value of \<^verbatim>\<open>BigInt(simulation.amountOut)\<close>, the simulated output the SDK reported.
\<close>

record SwapParams =
  poolId :: string
  assetIn :: string
  assetOut :: string
  amountIn :: int
  minAmountOut :: int
  maxSlippageBps :: "number option"

definition slippageTolerance :: "number option \<Rightarrow> number" where
  "slippageTolerance bps =
     (case bps of
        None \<Rightarrow> Finite 100
      | Some b \<Rightarrow> if truthy b then b else Finite 100)"

definition slippageMultiplier :: "number option \<Rightarrow> error + int" where
  "slippageMultiplier bps = BigInt (number_sub (Finite 10000) (slippageTolerance bps))"

definition executeSwap_minAmountOut :: "int \<Rightarrow> number option \<Rightarrow> error + int" where
  "executeSwap_minAmountOut amountOut bps =
     (case slippageMultiplier bps of
        Inl err \<Rightarrow> Inl err
      | Inr multiplier \<Rightarrow>
          (case BigInt (Finite 10000) of
             Inl err \<Rightarrow> Inl err
           | Inr d \<Rightarrow> bigint_div (amountOut * multiplier) d))"

text \<open>
  The request handed to the SDK's \<^verbatim>\<open>client.executeSwap\<close> once the simulation has
  returned \<open>amountOut\<close>:
  \<^verbatim>\<open>
  { poolId: params.poolId, assetInAddress: params.assetIn, assetOutAddress: params.assetOut,
    amountIn: params.amountIn.toString(), minAmountOut: minAmountOut.toString(),
    maxSlippageBps: params.maxSlippageBps || 100 }
  \<close>
\<close>

record swap_request =
  req_poolId :: string
  req_assetInAddress :: string
  req_assetOutAddress :: string
  req_amountIn :: string
  req_minAmountOut :: string
  req_maxSlippageBps :: number

definition executeSwap_request :: "SwapParams \<Rightarrow> int \<Rightarrow> error + swap_request" where
  "executeSwap_request params amountOut =
     (case executeSwap_minAmountOut amountOut (maxSlippageBps params) of
        Inl err \<Rightarrow> Inl err
      | Inr m \<Rightarrow>
          Inr \<lparr> req_poolId = poolId params,
                req_assetInAddress = assetIn params,
                req_assetOutAddress = assetOut params,
                req_amountIn = bigint_toString (amountIn params),
                req_minAmountOut = bigint_toString m,
                req_maxSlippageBps = slippageTolerance (maxSlippageBps params) \<rparr>)"

subsection \<open>Virtual reserves\<close>

text \<open>
  \<^verbatim>\<open>
  static calculateVirtualReserves(params: { initialTokenSupply: string;
      graduationThresholdPct: number; targetRaise: string }): VirtualReserves {
    return FlashnetClient.calculateVirtualReserves(params);
  }
  \<close>
  \<^verbatim>\<open>FlashnetClient\<close> belongs to the Flashnet SDK, which is not part of the repository:
  its function is the parameter \<open>vendor\<close>, which returns the reserves or throws.
  The fields \<^verbatim>\<open>graduationThresholdPct\<close> and \<^verbatim>\<open>targetRaise\<close> of its argument are
  \<open>thresholdPct\<close> and \<open>targetRaiseSats\<close> below; \<open>TokenLaunchParams\<close> has fields of the
  same names.
\<close>

record VirtualReserves =
  virtualReserveA :: int
  virtualReserveB :: int
  threshold :: int

record reserve_params =
  initialTokenSupply :: string
  thresholdPct :: number
  targetRaiseSats :: string

type_synonym vendor_fn = "reserve_params \<Rightarrow> error + VirtualReserves"

definition calculateVirtualReserves :: "vendor_fn \<Rightarrow> reserve_params \<Rightarrow> error + VirtualReserves" where
  "calculateVirtualReserves vendor params = vendor params"

subsection \<open>The preview of the launch form\<close>

text \<open>
  \<^verbatim>\<open>
  const updatePreview = () => {
    if (formData.initialSupply && formData.graduationThresholdPct && formData.targetRaise) {
      try {
        const preview = FlashnetClient.calculateVirtualReserves({
          initialTokenSupply: formData.initialSupply.toString(),
          graduationThresholdPct: formData.graduationThresholdPct,
          targetRaise: formData.targetRaise.toString(),
        });
        setPreviewData(preview);
      } catch (error) {
        console.error('Preview calculation failed:', error);
      }
    }
  };
  \<close>
  \<open>formData\<close> is a \<^verbatim>\<open>Partial<TokenLaunchParams>\<close>: every field may be absent. The state
  is the form data, the preview shown, and the errors written to the console.
\<close>

record TokenLaunchParams =
  name :: "string option"
  symbol :: "string option"
  description :: "string option"
  imageUrl :: "string option"
  initialSupply :: "int option"
  graduationThresholdPct :: "number option"
  targetRaise :: "int option"
  lpFeeRateBps :: "number option"
  totalHostFeeRateBps :: "number option"
  hostNamespace :: "string option"

record form_state =
  formData :: TokenLaunchParams
  previewData :: "VirtualReserves option"
  consoleErrors :: "error list"

definition updatePreview :: "vendor_fn \<Rightarrow> form_state \<Rightarrow> error + form_state" where
  "updatePreview vendor st =
     (case (initialSupply (formData st), graduationThresholdPct (formData st),
            targetRaise (formData st)) of
        (Some supply, Some pct, Some raise) \<Rightarrow>
          if supply \<noteq> 0 \<and> truthy pct \<and> raise \<noteq> 0 then
            (case vendor \<lparr> initialTokenSupply = bigint_toString supply,
                            thresholdPct = pct,
                            targetRaiseSats = bigint_toString raise \<rparr> of
               Inr preview \<Rightarrow> Inr (st\<lparr> previewData := Some preview \<rparr>)
             | Inl err \<Rightarrow> Inr (st\<lparr> consoleErrors := consoleErrors st @ [err] \<rparr>))
          else Inr st
      | _ \<Rightarrow> Inr st)"

text \<open>
  The state in which the form is created:
  \<^verbatim>\<open>
  useState<Partial<TokenLaunchParams>>({ name: '', symbol: '', description: '', imageUrl: '',
    initialSupply: BigInt(1000000), graduationThresholdPct: 80,
    targetRaise: BigInt(100000000), lpFeeRateBps: 30, totalHostFeeRateBps: 50 });
  useState<any>(null);
  \<close>
\<close>

definition initialFormData :: TokenLaunchParams where
  "initialFormData =
     \<lparr> name = Some [], symbol = Some [], description = Some [], imageUrl = Some [],
       initialSupply = Some 1000000, graduationThresholdPct = Some (Finite 80),
       targetRaise = Some 100000000, lpFeeRateBps = Some (Finite 30),
       totalHostFeeRateBps = Some (Finite 50), hostNamespace = None \<rparr>"

definition initialFormState :: form_state where
  "initialFormState = \<lparr> formData = initialFormData, previewData = None, consoleErrors = [] \<rparr>"

section \<open>The formulas of the specification\<close>

text \<open>
  The specification's \<open>computeMinAmountOut\<close>:
  \<open>minAmountOut = quotedAmountOut * (10000 - maxSlippageBps) / 10000\<close>, integer division
  truncating toward zero.
\<close>

definition computeMinAmountOut_spec :: "int \<Rightarrow> int \<Rightarrow> int" where
  "computeMinAmountOut_spec quotedAmountOut slippageBps =
     (quotedAmountOut * (10000 - slippageBps)) sdiv 10000"

text \<open>
  The specification's \<open>computePriceImpact\<close>:
  \<open>impact = |expectedOut - amountOut| / expectedOut * 100\<close>, read in the arithmetic of
  the result type.
\<close>

definition computePriceImpact_spec :: "int \<Rightarrow> int \<Rightarrow> int \<Rightarrow> int \<Rightarrow> number" where
  "computePriceImpact_spec amountIn' amountOut reserveIn reserveOut =
     (let expected = expectedOut amountIn' reserveIn reserveOut
      in number_mul
           (number_div (Math_abs (number_sub expected (Number amountOut))) expected)
           (Finite 100))"

text \<open>
  Modelled from the spec: the input constraints of \<open>deriveVirtualReserves\<close>,
  \<open>initialSupply \<ge> 1\<close>, \<open>50 \<le> graduationThresholdPct \<le> 95\<close> (an integer) and
  \<open>targetRaise \<ge> 1\<close>. The repository has no code that checks them.
\<close>

definition threshold_in_range :: "number \<Rightarrow> bool" where
  "threshold_in_range pct =
     (case pct of
        Finite r \<Rightarrow> of_int \<lfloor>r\<rfloor> = r \<and> 50 \<le> r \<and> r \<le> 95
      | _ \<Rightarrow> False)"

definition input_constraints :: "int \<Rightarrow> number \<Rightarrow> int \<Rightarrow> bool" where
  "input_constraints supply pct raise = (1 \<le> supply \<and> threshold_in_range pct \<and> 1 \<le> raise)"

section \<open>Properties of rounding\<close>

lemma pow2_pos: "0 < pow2 k"
  by (simp add: pow2_def)

lemma pow2_powi: "pow2 k = 2 powi k"
  by (simp add: pow2_def power_int_def inverse_eq_divide power_one_over)

lemma pow2_add: "pow2 (j + k) = pow2 j * pow2 k"
  by (simp add: pow2_powi power_int_add)

lemma pow2_mono: "j \<le> k \<Longrightarrow> pow2 j \<le> pow2 k"
  by (simp add: pow2_powi power_int_increasing)

lemma pow2_strict_mono: "j < k \<Longrightarrow> pow2 j < pow2 k"
  by (simp add: pow2_powi power_int_strict_increasing)

lemma pow2_nat: "0 \<le> k \<Longrightarrow> pow2 k = 2 ^ nat k"
  by (simp add: pow2_def)

lemma ilog2_bounds_ge1:
  assumes "1 \<le> a"
  shows "pow2 (ilog2 a) \<le> a \<and> a < pow2 (ilog2 a + 1)"
proof -
  define n where "n = \<lfloor>a\<rfloor>"
  have n1: "1 \<le> n" using assms by (simp add: n_def le_floor_iff)
  then have npos: "0 < n" by simp
  from bitlen_bounds [OF npos]
  have lo: "2 ^ nat (bitlen n - 1) \<le> n" and hi: "n < 2 ^ nat (bitlen n)" by simp_all
  have bl: "1 \<le> bitlen n" using npos bitlen_eq_zero_iff [of n] bitlen_nonneg [of n] by linarith
  have e: "ilog2 a = bitlen n - 1" using assms by (simp add: ilog2_def n_def)
  have "pow2 (bitlen n - 1) = of_int (2 ^ nat (bitlen n - 1))"
    using bl by (simp add: pow2_nat)
  also have "\<dots> \<le> of_int n" using lo by (simp only: of_int_le_iff)
  also have "\<dots> \<le> a" by (simp add: n_def)
  finally have A: "pow2 (ilog2 a) \<le> a" by (simp add: e)
  have "n + 1 \<le> 2 ^ nat (bitlen n)" using hi by simp
  then have "(of_int (n + 1) :: rat) \<le> of_int (2 ^ nat (bitlen n))" by (simp only: of_int_le_iff)
  moreover have "a < of_int (n + 1)" unfolding n_def by linarith
  ultimately have "a < of_int (2 ^ nat (bitlen n))" by linarith
  also have "\<dots> = pow2 (bitlen n)" using bl by (simp add: pow2_nat)
  finally have B: "a < pow2 (ilog2 a + 1)" by (simp add: e)
  from A B show ?thesis ..
qed

lemma ilog2_bounds_lt1:
  assumes "0 < a" "a < 1"
  shows "pow2 (ilog2 a) \<le> a \<and> a < pow2 (ilog2 a + 1)"
proof -
  define b where "b = 1 / a"
  define c where "c = \<lceil>b\<rceil> - 1"
  have b1: "1 < b" using assms by (simp add: b_def)
  have c1: "1 \<le> c" using b1 by (simp add: c_def less_ceiling_iff)
  then have cpos: "0 < c" by simp
  from bitlen_bounds [OF cpos]
  have lo: "2 ^ nat (bitlen c - 1) \<le> c" and hi: "c < 2 ^ nat (bitlen c)" by simp_all
  have bl: "1 \<le> bitlen c" using cpos bitlen_eq_zero_iff [of c] bitlen_nonneg [of c] by linarith
  have e: "ilog2 a = - bitlen c" using assms by (simp add: ilog2_def c_def b_def)
  have cb: "of_int c < b" "b \<le> of_int c + 1"
    unfolding c_def by linarith+
  have ab: "a = 1 / b" using assms by (simp add: b_def)
  have "c + 1 \<le> 2 ^ nat (bitlen c)" using hi by simp
  then have "(of_int (c + 1) :: rat) \<le> of_int (2 ^ nat (bitlen c))" by (simp only: of_int_le_iff)
  then have "b \<le> 2 ^ nat (bitlen c)" using cb by simp
  then have "1 / 2 ^ nat (bitlen c) \<le> 1 / b" using b1 by (simp add: frac_le)
  moreover have "pow2 (- bitlen c) = 1 / 2 ^ nat (bitlen c)" using bl by (simp add: pow2_def)
  ultimately have A': "pow2 (- bitlen c) \<le> 1 / b" by simp
  have A: "pow2 (ilog2 a) \<le> a" using A' by (simp add: e) (simp add: b_def)
  have "(of_int (2 ^ nat (bitlen c - 1)) :: rat) \<le> of_int c" using lo by (simp only: of_int_le_iff)
  then have "(2 :: rat) ^ nat (bitlen c - 1) \<le> of_int c" by simp
  then have lt: "2 ^ nat (bitlen c - 1) < b" using cb(1) by linarith
  then have "1 / b < 1 / 2 ^ nat (bitlen c - 1)" by (simp add: frac_less2)
  moreover have "pow2 (- bitlen c + 1) = 1 / 2 ^ nat (bitlen c - 1)"
  proof (cases "bitlen c = 1")
    case True then show ?thesis by (simp add: pow2_def)
  next
    case False
    then have "- bitlen c + 1 < 0" using bl by simp
    moreover have "nat (- (- bitlen c + 1)) = nat (bitlen c - 1)" by simp
    ultimately show ?thesis by (simp add: pow2_def)
  qed
  ultimately have B': "1 / b < pow2 (- bitlen c + 1)" by simp
  have B: "a < pow2 (ilog2 a + 1)" using B' by (simp add: e) (simp add: b_def)
  from A B show ?thesis ..
qed

lemma ilog2_bounds:
  assumes "0 < a"
  shows "pow2 (ilog2 a) \<le> a \<and> a < pow2 (ilog2 a + 1)"
  using assms ilog2_bounds_ge1 [of a] ilog2_bounds_lt1 [of a] by (cases "1 \<le> a") auto


lemma round_half_even_of_int: "round_half_even (of_int k) = k"
  by (simp add: round_half_even_def)

lemma round_half_even_nonneg: "0 \<le> t \<Longrightarrow> 0 \<le> round_half_even t"
  by (simp add: round_half_even_def Let_def)

lemma round_half_even_upper: "of_int (round_half_even t) \<le> t + 1"
  unfolding round_half_even_def Let_def by (simp; linarith)

lemma round_half_even_ge_int: "of_int k \<le> t \<Longrightarrow> k \<le> round_half_even t"
  unfolding round_half_even_def Let_def by (simp add: le_floor_iff; linarith)

lemma round_magnitude_nonneg: "0 \<le> a \<Longrightarrow> round_magnitude a = Some r \<Longrightarrow> 0 \<le> r"
  using round_half_even_nonneg [of "a / pow2 (max (ilog2 a) (- 1022) - 52)"]
    pow2_pos [of "max (ilog2 a) (- 1022) - 52"]
  by (auto simp: round_magnitude_def Let_def split: if_splits)

lemma round_binary64_not_NaN: "round_binary64 x \<noteq> NaN"
  by (simp add: round_binary64_def split: option.splits)

lemma round_binary64_abs: "Math_abs (round_binary64 x) = round_binary64 \<bar>x\<bar>"
  using round_magnitude_nonneg [of "\<bar>x\<bar>"]
  by (auto simp: round_binary64_def split: option.splits)

lemma round_binary64_nonneg:
  assumes "0 \<le> x"
  shows "round_binary64 x = PosInfinity \<or> (\<exists>y. round_binary64 x = Finite y \<and> 0 \<le> y)"
proof -
  have "Math_abs (round_binary64 x) = round_binary64 x"
    using assms by (simp add: round_binary64_abs)
  then show ?thesis
    using round_binary64_not_NaN [of x] by (cases "round_binary64 x") auto
qed

lemma round_magnitude_exact_int:
  assumes "0 < n" "n < 2 ^ 53"
  shows "round_magnitude (of_int n) = Some (of_int n)"
proof -
  define a :: rat where "a = of_int n"
  have a1: "1 \<le> a" using assms by (simp add: a_def)
  then have apos: "0 < a" by simp
  define e where "e = ilog2 a"
  from ilog2_bounds [OF apos] have lo: "pow2 e \<le> a" and hi: "a < pow2 (e + 1)"
    by (simp_all add: e_def)
  have "a < pow2 53" using assms by (simp add: a_def pow2_def)
  with lo have "pow2 e < pow2 53" by simp
  then have e52: "e \<le> 52" using pow2_mono [of 53 e] by (cases "53 \<le> e") auto
  have "pow2 0 < pow2 (e + 1)" using a1 hi by (simp add: pow2_def)
  then have e0: "0 \<le> e" using pow2_mono [of "e + 1" 0] by (cases "e + 1 \<le> 0") auto
  have emax: "max e (- 1022) = e" using e0 by simp
  have inv: "pow2 (e - 52) * pow2 (52 - e) = 1"
    using pow2_add [of "e - 52" "52 - e"] by (simp add: pow2_def)
  have q: "a / pow2 (e - 52) = of_int (n * 2 ^ nat (52 - e))"
  proof -
    have "a / pow2 (e - 52) = a * pow2 (52 - e)"
      using inv pow2_pos [of "e - 52"] by (simp add: field_simps)
    also have "pow2 (52 - e) = 2 ^ nat (52 - e)" using e52 by (simp add: pow2_nat)
    finally show ?thesis by (simp add: a_def)
  qed
  have r: "of_int (round_half_even (a / pow2 (e - 52))) * pow2 (e - 52) = a"
  proof -
    have "of_int (round_half_even (a / pow2 (e - 52))) * pow2 (e - 52)
          = (a / pow2 (e - 52)) * pow2 (e - 52)"
      by (simp only: q round_half_even_of_int)
    also have "\<dots> = a" using pow2_pos [of "e - 52"] by simp
    finally show ?thesis .
  qed
  show ?thesis
    unfolding a_def [symmetric] round_magnitude_def Let_def e_def [symmetric] emax
    using e52 r by simp
qed

lemma round_binary64_exact_int:
  assumes "\<bar>n\<bar> < 2 ^ 53"
  shows "round_binary64 (of_int n) = Finite (of_int n)"
proof -
  consider "n = 0" | "0 < n" | "n < 0" by linarith
  then show ?thesis
  proof cases
    case 1
    then show ?thesis by (simp add: round_binary64_def)
  next
    case 2
    then show ?thesis
      using assms round_magnitude_exact_int [of n] by (simp add: round_binary64_def)
  next
    case 3
    then have "round_magnitude (of_int (- n)) = Some (of_int (- n))"
      using assms by (intro round_magnitude_exact_int) auto
    with 3 show ?thesis by (simp add: round_binary64_def)
  qed
qed


lemma pow2_less_cancel: "pow2 j < pow2 k \<Longrightarrow> j < k"
  using pow2_mono [of k j] by (cases "k \<le> j") auto

lemma round_magnitude_overflow:
  assumes "2 ^ 1024 \<le> a"
  shows "round_magnitude a = None"
proof -
  have apos: "0 < a" using assms by (rule less_le_trans [rotated]) simp
  have "pow2 1024 \<le> a" using assms by (simp add: pow2_def)
  also have "a < pow2 (ilog2 a + 1)" using ilog2_bounds [OF apos] by simp
  finally have "1024 \<le> ilog2 a" using pow2_less_cancel [of 1024 "ilog2 a + 1"] by simp
  then show ?thesis by (simp add: round_magnitude_def Let_def)
qed

lemma round_binary64_overflow: "2 ^ 1024 \<le> x \<Longrightarrow> round_binary64 x = PosInfinity"
  using round_magnitude_overflow [of x]
  by (auto simp: round_binary64_def abs_if split: if_splits)

lemma round_magnitude_ge1:
  assumes "1 \<le> a" "round_magnitude a = Some r"
  shows "1 \<le> r"
proof -
  have apos: "0 < a" using assms(1) by simp
  define e where "e = ilog2 a"
  from ilog2_bounds [OF apos] have lo: "pow2 e \<le> a" and hi: "a < pow2 (e + 1)"
    by (simp_all add: e_def)
  have "pow2 0 < pow2 (e + 1)" using assms(1) hi by (simp add: pow2_def)
  then have e0: "0 \<le> e" using pow2_less_cancel [of 0 "e + 1"] by simp
  have emax: "max e (- 1022) = e" using e0 by simp
  define q where "q = pow2 (e - 52)"
  have qpos: "0 < q" by (simp add: q_def pow2_pos)
  have pq: "pow2 e = 2 ^ 52 * q"
    using pow2_add [of 52 "e - 52"] by (simp add: q_def pow2_def)
  have "of_int (2 ^ 52) \<le> a / q" using lo qpos by (simp add: pq field_simps)
  then have m: "2 ^ 52 \<le> round_half_even (a / q)" by (rule round_half_even_ge_int)
  have r: "r = of_int (round_half_even (a / q)) * q"
    using assms(2) unfolding round_magnitude_def Let_def e_def [symmetric] emax q_def [symmetric]
    by (simp split: if_splits)
  have "(1::rat) = pow2 0" by (simp add: pow2_def)
  also have "\<dots> \<le> pow2 e" using e0 by (rule pow2_mono)
  also have "\<dots> = of_int (2 ^ 52) * q" by (simp add: pq)
  also have "\<dots> \<le> of_int (round_half_even (a / q)) * q"
  proof (rule mult_right_mono)
    show "(of_int (2 ^ 52) :: rat) \<le> of_int (round_half_even (a / q))"
      using m by (simp only: of_int_le_iff)
    show "0 \<le> q" using qpos by simp
  qed
  finally show ?thesis by (simp add: r)
qed

lemma round_binary64_ge1:
  assumes "1 \<le> x"
  shows "round_binary64 x = PosInfinity \<or> (\<exists>y. round_binary64 x = Finite y \<and> 1 \<le> y)"
  using assms round_magnitude_ge1 [of x]
  by (auto simp: round_binary64_def abs_if split: option.splits)

lemma round_magnitude_bounded:
  assumes "0 < a" "a < 2 ^ 1023"
  shows "\<exists>r. round_magnitude a = Some r \<and> r \<le> 2 * a + 1"
proof -
  define e0 where "e0 = ilog2 a"
  from ilog2_bounds [OF assms(1)] have lo: "pow2 e0 \<le> a" by (simp add: e0_def)
  have "a < pow2 1023" using assms(2) by (simp add: pow2_def)
  with lo have "pow2 e0 < pow2 1023" by simp
  then have e0_le: "e0 \<le> 1022" using pow2_less_cancel [of e0 1023] by simp
  define e where "e = max e0 (- 1022)"
  have e_le: "e \<le> 1022" using e0_le by (simp add: e_def)
  define q where "q = pow2 (e - 52)"
  have qpos: "0 < q" by (simp add: q_def pow2_pos)
  have qa: "q \<le> a + 1"
  proof (cases "- 1022 \<le> e0")
    case True
    then have "e = e0" by (simp add: e_def)
    then have "q \<le> pow2 e0" unfolding q_def by (intro pow2_mono) simp
    with lo assms(1) show ?thesis by simp
  next
    case False
    then have "e = - 1022" by (simp add: e_def)
    then have "q \<le> pow2 0" unfolding q_def by (intro pow2_mono) simp
    then show ?thesis using assms(1) by (simp add: pow2_def)
  qed
  have "of_int (round_half_even (a / q)) * q \<le> (a / q + 1) * q"
    using round_half_even_upper [of "a / q"] qpos by (intro mult_right_mono) simp_all
  also have "\<dots> = a + q" using qpos by (simp add: field_simps)
  also have "\<dots> \<le> 2 * a + 1" using qa by simp
  finally have "of_int (round_half_even (a / q)) * q \<le> 2 * a + 1" .
  moreover have "round_magnitude a = Some (of_int (round_half_even (a / q)) * q)"
    unfolding round_magnitude_def Let_def e0_def [symmetric] e_def [symmetric] q_def [symmetric]
    using e_le by simp
  ultimately show ?thesis by simp
qed

lemma round_binary64_bounded:
  assumes "0 \<le> x" "x < 2 ^ 1023"
  shows "\<exists>y. round_binary64 x = Finite y \<and> 0 \<le> y \<and> y \<le> 2 * x + 1"
proof (cases "x = 0")
  case True
  then show ?thesis by (simp add: round_binary64_def)
next
  case False
  with assms have "0 < x" by simp
  from round_magnitude_bounded [OF this assms(2)]
  obtain r where r: "round_magnitude x = Some r" "r \<le> 2 * x + 1" by blast
  moreover have "0 \<le> r" using round_magnitude_nonneg [of x r] r(1) assms(1) by simp
  ultimately show ?thesis using \<open>0 < x\<close> by (simp add: round_binary64_def)
qed

text \<open>
  The rounded magnitude is a multiple of the quantum \<open>2\<^sup>e\<^sup>-\<^sup>5\<^sup>2\<close> by a significand of at
  most 53 bits, and no such multiple is nearer: it is within half a quantum.
\<close>

lemma round_half_even_nearest: "\<bar>of_int (round_half_even t) - t\<bar> \<le> 1 / 2"
proof -
  define n where "n = \<lfloor>t\<rfloor>"
  define f where "f = t - of_int n"
  have f: "0 \<le> f" "f < 1" unfolding f_def n_def by linarith+
  have m: "round_half_even t =
      (if f < 1 / 2 then n else if 1 / 2 < f then n + 1 else if even n then n else n + 1)"
    unfolding round_half_even_def Let_def n_def [symmetric] f_def [symmetric] ..
  have "of_int (round_half_even t) - t = of_int (round_half_even t) - of_int n - f"
    by (simp add: f_def)
  then show ?thesis using f unfolding m by (auto simp: abs_if)
qed

lemma round_half_even_le_int: "t \<le> of_int k \<Longrightarrow> round_half_even t \<le> k"
  unfolding round_half_even_def Let_def by (simp add: floor_less_iff; linarith)

lemma round_magnitude_significand:
  assumes "0 < a"
  shows "round_half_even (a / pow2 (max (ilog2 a) (- 1022) - 52)) \<le> 2 ^ 53"
proof -
  define e where "e = max (ilog2 a) (- 1022)"
  define q where "q = pow2 (e - 52)"
  have qpos: "0 < q" by (simp add: q_def pow2_pos)
  have "a < pow2 (ilog2 a + 1)" using ilog2_bounds [OF assms] by simp
  also have "\<dots> \<le> pow2 (e + 1)" by (intro pow2_mono) (simp add: e_def)
  also have "\<dots> = 2 ^ 53 * q"
  proof -
    have "pow2 53 = 2 ^ 53" by (simp add: pow2_def)
    then show ?thesis using pow2_add [of 53 "e - 52"] by (simp add: q_def add.commute)
  qed
  finally have "a / q \<le> of_int (2 ^ 53)" using qpos by (simp add: field_simps)
  then show ?thesis unfolding e_def [symmetric] q_def [symmetric] by (rule round_half_even_le_int)
qed

lemma round_magnitude_nearest:
  assumes "round_magnitude a = Some r"
  shows "\<bar>r - a\<bar> \<le> pow2 (max (ilog2 a) (- 1022) - 52) / 2"
proof -
  define q where "q = pow2 (max (ilog2 a) (- 1022) - 52)"
  have qpos: "0 < q" by (simp add: q_def pow2_pos)
  have r: "r = of_int (round_half_even (a / q)) * q"
    using assms unfolding round_magnitude_def Let_def q_def [symmetric]
    by (simp split: if_splits)
  have "r - a = (of_int (round_half_even (a / q)) - a / q) * q"
    using qpos by (simp add: r left_diff_distrib)
  then have "\<bar>r - a\<bar> = \<bar>of_int (round_half_even (a / q)) - a / q\<bar> * q"
    using qpos by (simp add: abs_mult)
  also have "\<dots> \<le> (1 / 2) * q"
    using round_half_even_nearest [of "a / q"] qpos by (intro mult_right_mono) simp_all
  finally show ?thesis by (simp add: q_def)
qed

section \<open>Slippage protection\<close>

lemma sdiv_nonneg: "0 \<le> a \<Longrightarrow> 0 < b \<Longrightarrow> a sdiv b = a div (b::int)"
  by (simp add: signed_divide_int_def sgn_if)

lemma BigInt_of_int: "BigInt (Finite (of_int k)) = Inr k"
  by simp

lemma BigInt_10000: "BigInt (Finite 10000) = Inr 10000"
  using BigInt_of_int [of 10000] by simp

lemma number_sub_int:
  assumes "\<bar>a - b\<bar> < 2 ^ 53"
  shows "number_sub (Finite (of_int a)) (Finite (of_int b)) = Finite (of_int (a - b))"
  using round_binary64_exact_int [OF assms] by simp

lemma slippageTolerance_int:
  "slippageTolerance (Some (Finite (of_int bps))) = Finite (of_int (if bps = 0 then 100 else bps))"
  by (simp add: slippageTolerance_def)

lemma slippageMultiplier_int:
  assumes "0 \<le> bps" "bps \<le> 10000"
  shows "slippageMultiplier (Some (Finite (of_int bps))) = Inr (10000 - (if bps = 0 then 100 else bps))"
proof -
  define t where "t = (if bps = 0 then 100 else bps)"
  have "\<bar>10000 - t\<bar> < 2 ^ 53" using assms by (simp add: t_def)
  from number_sub_int [OF this]
  have "number_sub (Finite 10000) (Finite (of_int t)) = Finite (of_int (10000 - t))" by simp
  then show ?thesis
    unfolding slippageMultiplier_def slippageTolerance_int t_def [symmetric]
    by (simp only: BigInt_of_int)
qed

lemma executeSwap_minAmountOut_int:
  assumes "0 \<le> bps" "bps \<le> 10000"
  shows "executeSwap_minAmountOut q (Some (Finite (of_int bps)))
         = Inr ((q * (10000 - (if bps = 0 then 100 else bps))) sdiv 10000)"
  unfolding executeSwap_minAmountOut_def slippageMultiplier_int [OF assms] BigInt_10000
  by (simp add: bigint_div_def)

lemma slippageMultiplier_absent: "slippageMultiplier None = Inr 9900"
proof -
  have "number_sub (Finite 10000) (Finite 100) = Finite (of_int 9900)"
    using number_sub_int [of 10000 100] by simp
  then show ?thesis
    unfolding slippageMultiplier_def slippageTolerance_def by (simp only: option.case BigInt_of_int)
qed

lemma executeSwap_minAmountOut_absent:
  "executeSwap_minAmountOut q None = Inr ((q * 9900) sdiv 10000)"
  unfolding executeSwap_minAmountOut_def slippageMultiplier_absent BigInt_10000
  by (simp add: bigint_div_def)

lemma scaled_div_le:
  assumes "0 \<le> (q::int)" "0 \<le> k" "k \<le> 10000"
  shows "(q * k) sdiv 10000 \<le> q"
proof -
  have "q * k \<le> q * 10000" using assms by (intro mult_left_mono) simp_all
  then have "(q * k) div 10000 \<le> (q * 10000) div 10000" by (rule zdiv_mono1) simp
  moreover have "0 \<le> q * k" using assms by simp
  ultimately show ?thesis by (simp add: sdiv_nonneg)
qed

lemma calculateSlippage_le:
  assumes "0 \<le> amount" "0 \<le> bps" "calculateSlippage amount (Finite bps) = Inr r"
  shows "r \<le> amount"
proof -
  define pct where "pct = number_div (Finite bps) (Finite 10000)"
  define s where "s = number_mul (Number amount) pct"
  have pct: "pct = PosInfinity \<or> (\<exists>p. pct = Finite p \<and> 0 \<le> p)"
    using round_binary64_nonneg [of "bps / 10000"] assms(2) by (simp add: pct_def)
  have num: "Number amount = PosInfinity \<or> (\<exists>y. Number amount = Finite y \<and> 0 \<le> y)"
    using round_binary64_nonneg [of "of_int amount"] assms(1) by (simp add: Number_def)
  from assms(3) obtain k where k: "BigInt (Math_floor s) = Inr k" "r = amount - k"
    by (auto simp: calculateSlippage_def Let_def pct_def s_def split: sum.splits)
  from k(1) obtain v where v: "s = Finite v" "k = \<lfloor>v\<rfloor>"
    by (cases s) (auto split: if_splits)
  have "0 \<le> v"
  proof -
    from v(1) pct num obtain y p where yp: "Number amount = Finite y" "0 \<le> y" "pct = Finite p" "0 \<le> p"
      unfolding s_def by (cases "Number amount"; cases pct) (auto split: if_splits)
    then have "s = round_binary64 (y * p)" by (simp add: s_def)
    moreover have "0 \<le> y * p" using yp by simp
    ultimately show ?thesis using round_binary64_nonneg [of "y * p"] v(1) by auto
  qed
  then have "0 \<le> k" by (simp add: v(2))
  with k(2) show ?thesis by simp
qed


lemma calculateSlippage_returns:
  assumes "0 \<le> amount" "amount < 2 ^ 1020" "0 \<le> bps" "bps \<le> 10000"
  shows "\<exists>r. calculateSlippage amount (Finite bps) = Inr r"
proof -
  define P :: rat where "P = 2 ^ 1020"
  have P8: "(2::rat) ^ 1023 = 8 * P" by (simp add: P_def)
  have P1: "2 \<le> P" by (simp add: P_def)
  have "(of_int amount :: rat) < of_int (2 ^ 1020)" using assms(2) by (simp only: of_int_less_iff)
  then have aP: "of_int amount < P" by (simp add: P_def)
  have a0: "(0::rat) \<le> of_int amount" using assms(1) by simp
  have "(of_int amount :: rat) < 2 ^ 1023" using aP P1 unfolding P8 by linarith
  from round_binary64_bounded [OF a0 this]
  obtain y where y: "Number amount = Finite y" "0 \<le> y" "y \<le> 2 * of_int amount + 1"
    by (auto simp: Number_def)
  have b0: "0 \<le> bps / 10000" and b1: "bps / 10000 \<le> 1" using assms(3,4) by simp_all
  have "bps / 10000 < 2 ^ 1023" using b1 P1 unfolding P8 by linarith
  from round_binary64_bounded [OF b0 this]
  obtain p where p: "round_binary64 (bps / 10000) = Finite p" "0 \<le> p" "p \<le> 3"
    using b1 by auto
  have yp0: "0 \<le> y * p" using y(2) p(2) by simp
  have "y * p \<le> (2 * of_int amount + 1) * 3"
    using y p a0 by (intro mult_mono) simp_all
  also have "\<dots> = 6 * of_int amount + 3" by simp
  also have "\<dots> < 8 * P" using aP P1 by linarith
  finally have "y * p < 2 ^ 1023" by (simp only: P8)
  from round_binary64_bounded [OF yp0 this]
  obtain s where s: "round_binary64 (y * p) = Finite s" by auto
  show ?thesis
    by (simp add: calculateSlippage_def Let_def y(1) p(1) s)
qed

section \<open>The minimum output\<close>

lemma calculateSlippage_1000_100: "calculateSlippage 1000 (Finite 100) = Inr 990"
  by code_simp

text \<open>
  C6. For every unsigned amount and every slippage in [0, 10000] basis points, the
  minimum acceptable output never exceeds the quoted amount: the inline computation of
  \<open>executeSwap\<close> returns a value at most the amount, and so does every value returned
  by \<open>calculateSlippage\<close>, which returns for every amount below \<open>2\<^sup>1\<^sup>0\<^sup>2\<^sup>0\<close>.
\<close>

theorem minAmountOut_le_amountOut:
  assumes "0 \<le> amount" "0 \<le> bps" "bps \<le> 10000"
  shows "(\<exists>m. executeSwap_minAmountOut amount (Some (Finite (of_int bps))) = Inr m \<and> m \<le> amount)
       \<and> (\<forall>r. calculateSlippage amount (Finite (of_int bps)) = Inr r \<longrightarrow> r \<le> amount)
       \<and> (amount < 2 ^ 1020 \<longrightarrow> (\<exists>r. calculateSlippage amount (Finite (of_int bps)) = Inr r))"
proof (intro conjI allI impI)
  have "0 \<le> 10000 - (if bps = 0 then 100 else bps)" "10000 - (if bps = 0 then 100 else bps) \<le> 10000"
    using assms by simp_all
  from scaled_div_le [OF assms(1) this]
  show "\<exists>m. executeSwap_minAmountOut amount (Some (Finite (of_int bps))) = Inr m \<and> m \<le> amount"
    by (simp only: executeSwap_minAmountOut_int [OF assms(2,3)]) blast
next
  fix r
  assume "calculateSlippage amount (Finite (of_int bps)) = Inr r"
  with assms show "r \<le> amount" using calculateSlippage_le [of amount "of_int bps" r] by simp
next
  assume "amount < 2 ^ 1020"
  with assms show "\<exists>r. calculateSlippage amount (Finite (of_int bps)) = Inr r"
    using calculateSlippage_returns [of amount "of_int bps"] by simp
qed

theorem minAmountOut_le_amountOut_witness:
  "(0::int) \<le> 1000 \<and> (0::int) \<le> 100 \<and> (100::int) \<le> 10000
   \<and> (\<exists>m. executeSwap_minAmountOut 1000 (Some (Finite 100)) = Inr m \<and> m \<le> 1000)
   \<and> (\<exists>r. calculateSlippage 1000 (Finite 100) = Inr r \<and> r \<le> 1000)"
proof -
  have "(1000::int) < 2 ^ 1020" by simp
  with minAmountOut_le_amountOut [of 1000 100] show ?thesis by simp blast
qed

lemma scaled_div_less:
  assumes "0 < (q::int)" "0 \<le> k" "k < 10000"
  shows "(q * k) sdiv 10000 < q"
proof -
  have "q * k < q * 10000" using assms by (intro mult_strict_left_mono) simp_all
  then have "(q * k) div 10000 < q"
  proof -
    have "x < q * 10000 \<Longrightarrow> x div 10000 < q" for x :: int by presburger
    then show ?thesis using \<open>q * k < q * 10000\<close> by blast
  qed
  moreover have "0 \<le> q * k" using assms by simp
  ultimately show ?thesis by (simp add: sdiv_nonneg)
qed

lemma slippageTolerance_nonzero: "slippageTolerance bps \<noteq> Finite 0"
  by (cases bps) (auto simp: slippageTolerance_def)

lemma executeSwap_request_default:
  assumes "maxSlippageBps params = None \<or> maxSlippageBps params = Some (Finite 0)"
  shows "\<exists>req. executeSwap_request params q = Inr req
           \<and> req_minAmountOut req = bigint_toString ((q * 9900) sdiv 10000)
           \<and> req_maxSlippageBps req = Finite 100"
proof -
  have m: "executeSwap_minAmountOut q (maxSlippageBps params) = Inr ((q * 9900) sdiv 10000)"
    using assms executeSwap_minAmountOut_absent [of q] executeSwap_minAmountOut_int [of 0 q]
    by auto
  have t: "slippageTolerance (maxSlippageBps params) = Finite 100"
    using assms by (auto simp: slippageTolerance_def)
  show ?thesis by (simp add: executeSwap_request_def m t)
qed

text \<open>
  C10. In \<open>executeSwap\<close>, a \<open>maxSlippageBps\<close> that is \<open>0\<close> or absent is replaced by the
  default of 100 basis points: the tolerance applied is 100, the \<open>minAmountOut\<close> sent to
  the SDK is the simulated amount times 9900 over 10000 (for a positive amount, less
  than the simulated amount), and the tolerance applied is never \<open>0\<close>: with a whole
  number of basis points in [0, 10000] the minimum is below every positive simulated
  amount.
\<close>

theorem executeSwap_zero_slippage_is_default:
  "slippageTolerance None = Finite 100
   \<and> slippageTolerance (Some (Finite 0)) = Finite 100
   \<and> executeSwap_minAmountOut q None = Inr ((q * 9900) sdiv 10000)
   \<and> executeSwap_minAmountOut q (Some (Finite 0)) = Inr ((q * 9900) sdiv 10000)
   \<and> (maxSlippageBps params = None \<or> maxSlippageBps params = Some (Finite 0) \<longrightarrow>
        (\<exists>req. executeSwap_request params q = Inr req
           \<and> req_minAmountOut req = bigint_toString ((q * 9900) sdiv 10000)
           \<and> req_maxSlippageBps req = Finite 100))
   \<and> (0 < q \<longrightarrow> (q * 9900) sdiv 10000 < q)
   \<and> slippageTolerance bps \<noteq> Finite 0
   \<and> (0 < q \<and> 0 \<le> b \<and> b \<le> 10000 \<longrightarrow>
        (\<exists>m. executeSwap_minAmountOut q (Some (Finite (of_int b))) = Inr m \<and> m < q))"
proof (intro conjI impI)
  show "slippageTolerance None = Finite 100"
    and "slippageTolerance (Some (Finite 0)) = Finite 100"
    by (simp_all add: slippageTolerance_def)
  show "executeSwap_minAmountOut q None = Inr ((q * 9900) sdiv 10000)"
    by (rule executeSwap_minAmountOut_absent)
  show "executeSwap_minAmountOut q (Some (Finite 0)) = Inr ((q * 9900) sdiv 10000)"
    using executeSwap_minAmountOut_int [of 0 q] by simp
  show "slippageTolerance bps \<noteq> Finite 0" by (rule slippageTolerance_nonzero)
next
  assume "maxSlippageBps params = None \<or> maxSlippageBps params = Some (Finite 0)"
  then show "\<exists>req. executeSwap_request params q = Inr req
           \<and> req_minAmountOut req = bigint_toString ((q * 9900) sdiv 10000)
           \<and> req_maxSlippageBps req = Finite 100"
    by (rule executeSwap_request_default)
next
  assume "0 < q"
  then show "(q * 9900) sdiv 10000 < q" by (rule scaled_div_less) simp_all
next
  assume a: "0 < q \<and> 0 \<le> b \<and> b \<le> 10000"
  then have "(q * (10000 - (if b = 0 then 100 else b))) sdiv 10000 < q"
    by (intro scaled_div_less) auto
  then show "\<exists>m. executeSwap_minAmountOut q (Some (Finite (of_int b))) = Inr m \<and> m < q"
    using a by (simp add: executeSwap_minAmountOut_int)
qed

lemma bigint_toString_990: "bigint_toString 990 = ''990''"
  by code_simp

theorem executeSwap_zero_slippage_is_default_witness:
  "maxSlippageBps \<lparr> poolId = ''pool'', assetIn = ''btc'', assetOut = ''token'', amountIn = 5,
                     minAmountOut = 0, maxSlippageBps = Some (Finite 0) \<rparr> = Some (Finite 0)
   \<and> (\<exists>req. executeSwap_request
               \<lparr> poolId = ''pool'', assetIn = ''btc'', assetOut = ''token'', amountIn = 5,
                 minAmountOut = 0, maxSlippageBps = Some (Finite 0) \<rparr> 1000 = Inr req
          \<and> req_minAmountOut req = ''990'' \<and> req_maxSlippageBps req = Finite 100)
   \<and> (0::int) < 1000 \<and> (1000 * 9900) sdiv 10000 < (1000::int)
   \<and> (\<exists>m. executeSwap_minAmountOut 1000 (Some (Finite 0)) = Inr m \<and> m < 1000)"
proof -
  have e: "(1000 * 9900) sdiv 10000 = (990::int)"
    by (simp add: signed_divide_int_def)
  show ?thesis
    using executeSwap_zero_slippage_is_default
      [of 1000 "\<lparr> poolId = ''pool'', assetIn = ''btc'', assetOut = ''token'', amountIn = 5,
                   minAmountOut = 0, maxSlippageBps = Some (Finite 0) \<rparr>" "Some (Finite 0)" 0]
    by (simp add: e bigint_toString_990)
qed

text \<open>
  C1, as amended. For every quoted amount and every whole number of basis points in
  [1, 10000], the inline computation of \<open>executeSwap\<close> returns
  \<open>quotedAmountOut * (10000 - maxSlippageBps) / 10000\<close> with the division truncated
  toward zero; for \<open>0\<close> basis points it returns the value of that formula at 100 basis
  points.
\<close>

theorem executeSwap_minAmountOut_formula:
  "(1 \<le> bps \<and> bps \<le> 10000 \<longrightarrow>
      executeSwap_minAmountOut q (Some (Finite (of_int bps))) = Inr (computeMinAmountOut_spec q bps))
   \<and> executeSwap_minAmountOut q (Some (Finite 0)) = Inr (computeMinAmountOut_spec q 100)"
proof (intro conjI impI)
  assume "1 \<le> bps \<and> bps \<le> 10000"
  then show "executeSwap_minAmountOut q (Some (Finite (of_int bps))) = Inr (computeMinAmountOut_spec q bps)"
    by (simp add: executeSwap_minAmountOut_int computeMinAmountOut_spec_def)
next
  show "executeSwap_minAmountOut q (Some (Finite 0)) = Inr (computeMinAmountOut_spec q 100)"
    using executeSwap_minAmountOut_int [of 0 q] by (simp add: computeMinAmountOut_spec_def)
qed

theorem executeSwap_minAmountOut_formula_witness:
  "(1::int) \<le> 100 \<and> (100::int) \<le> 10000
   \<and> executeSwap_minAmountOut 1000 (Some (Finite 100)) = Inr 990
   \<and> computeMinAmountOut_spec 1000 100 = 990"
proof -
  have "computeMinAmountOut_spec 1000 100 = 990"
    by (simp add: computeMinAmountOut_spec_def signed_divide_int_def)
  then show ?thesis
    using executeSwap_minAmountOut_formula [of 100 1000] by simp
qed

theorem executeSwap_minAmountOut_zero_counterexample:
  "executeSwap_minAmountOut 1000 (Some (Finite 0)) = Inr 990
   \<and> computeMinAmountOut_spec 1000 0 = 1000"
proof -
  have "executeSwap_minAmountOut 1000 (Some (Finite 0)) = Inr ((1000 * 9900) sdiv 10000)"
    using executeSwap_minAmountOut_int [of 0 1000] by simp
  then show ?thesis
    by (simp add: computeMinAmountOut_spec_def signed_divide_int_def)
qed

text \<open>
  C9. \<open>calculateSlippage(1n, 100)\<close> returns \<open>1n\<close>: the slippage amount \<open>1 * 0.01\<close> is
  floored to \<open>0\<close> and subtracted. The inline computation of \<open>executeSwap\<close> and the
  formula give \<open>0\<close> for the same amount and basis points.
\<close>

theorem calculateSlippage_differs_from_inline:
  "calculateSlippage 1 (Finite 100) = Inr 1
   \<and> executeSwap_minAmountOut 1 (Some (Finite 100)) = Inr 0
   \<and> computeMinAmountOut_spec 1 100 = 0"
proof -
  have a: "calculateSlippage 1 (Finite 100) = Inr 1" by code_simp
  have b: "executeSwap_minAmountOut 1 (Some (Finite 100)) = Inr ((1 * 9900) sdiv 10000)"
    using executeSwap_minAmountOut_int [of 100 1] by simp
  show ?thesis using a b
    by (simp add: computeMinAmountOut_spec_def signed_divide_int_def)
qed

text \<open>
  C5. \<open>calculateSlippage(9007199254740993n, 10000)\<close> returns \<open>1n\<close>, not \<open>0n\<close>:
  \<open>Number(2\<^sup>5\<^sup>3 + 1)\<close> is \<open>2\<^sup>5\<^sup>3\<close>, so the slippage amount subtracted is one less than
  the amount. The three examples of the specification hold.
\<close>

theorem calculateSlippage_full_slippage_large_amount:
  "calculateSlippage 9007199254740993 (Finite 10000) = Inr 1
   \<and> Number 9007199254740993 = Finite 9007199254740992"
  by code_simp

lemma calculateSlippage_examples:
  "calculateSlippage 1000 (Finite 0) = Inr 1000"
  "calculateSlippage 1000 (Finite 10000) = Inr 0"
  "calculateSlippage 1000 (Finite 100) = Inr 990"
  by code_simp+

lemma calculateSlippage_negative_result:
  "calculateSlippage 9007199254740995 (Finite 10000) = Inr (- 1)"
  by code_simp

lemma calculateSlippage_100_5700:
  "calculateSlippage 100 (Finite 5700) = Inr 44 \<and> computeMinAmountOut_spec 100 5700 = 43"
  by code_simp

text \<open>
  Where the amount converts exactly, full slippage leaves nothing; zero slippage leaves
  the amount whenever \<open>Number(amount)\<close> is finite.
\<close>

lemma calculateSlippage_full_slippage_exact:
  assumes "0 \<le> amount" "amount < 2 ^ 53"
  shows "calculateSlippage amount (Finite 10000) = Inr 0"
proof -
  have n: "Number amount = Finite (of_int amount)"
    using assms round_binary64_exact_int [of amount] by (simp add: Number_def)
  have one: "round_binary64 1 = Finite 1"
    using round_binary64_exact_int [of 1] by simp
  have "round_binary64 (of_int amount) = Finite (of_int amount)"
    using n by (simp add: Number_def)
  then show ?thesis
    by (simp add: calculateSlippage_def Let_def n one)
qed

lemma calculateSlippage_zero_slippage:
  assumes "0 \<le> amount" "amount < 2 ^ 1023"
  shows "calculateSlippage amount (Finite 0) = Inr amount"
proof -
  have "(of_int amount :: rat) < of_int (2 ^ 1023)" using assms(2) by (simp only: of_int_less_iff)
  then have "(of_int amount :: rat) < 2 ^ 1023" by simp
  moreover have "(0::rat) \<le> of_int amount" using assms(1) by simp
  ultimately obtain y where "Number amount = Finite y"
    using round_binary64_bounded [of "of_int amount"] by (auto simp: Number_def)
  then show ?thesis
    by (simp add: calculateSlippage_def Let_def round_binary64_def)
qed

section \<open>Price impact\<close>

lemma Number_not_NaN: "Number n \<noteq> NaN"
  by (simp add: Number_def round_binary64_not_NaN)

lemma Number_zero: "Number 0 = Finite 0"
  by (simp add: Number_def round_binary64_def)

lemma Number_nonneg:
  "0 \<le> n \<Longrightarrow> Number n = PosInfinity \<or> (\<exists>y. Number n = Finite y \<and> 0 \<le> y)"
  using round_binary64_nonneg [of "of_int n"] by (simp add: Number_def)

lemma Number_ge1:
  "1 \<le> n \<Longrightarrow> Number n = PosInfinity \<or> (\<exists>y. Number n = Finite y \<and> 1 \<le> y)"
  using round_binary64_ge1 [of "of_int n"] by (simp add: Number_def)

text \<open>Non-negative numbers: \<open>+Infinity\<close> and the finite values from \<open>0\<close> on.\<close>

lemma number_ge_zero_iff:
  "number_ge x (Finite 0) \<longleftrightarrow> x = PosInfinity \<or> (\<exists>y. x = Finite y \<and> 0 \<le> y)"
  by (cases x) auto

lemma number_mul_nonneg:
  assumes "number_ge x (Finite 0)" "number_ge y (Finite 0)"
  shows "number_mul x y = NaN \<or> number_ge (number_mul x y) (Finite 0)"
proof -
  have "number_ge (round_binary64 (a * b)) (Finite 0)" if "0 \<le> a" "0 \<le> b" for a b
    using round_binary64_nonneg [of "a * b"] that by (auto simp: number_ge_zero_iff)
  then show ?thesis
    using assms by (cases x; cases y) (auto simp: number_ge_zero_iff)
qed

lemma number_div_nonneg:
  assumes "number_ge x (Finite 0)" "number_ge y (Finite 0)"
  shows "number_div x y = NaN \<or> number_ge (number_div x y) (Finite 0)"
proof -
  have "number_ge (round_binary64 (a / b)) (Finite 0)" if "0 \<le> a" "0 \<le> b" for a b
    using round_binary64_nonneg [of "a / b"] that by (auto simp: number_ge_zero_iff)
  then show ?thesis
    using assms by (cases x; cases y) (auto simp: number_ge_zero_iff)
qed

lemma expectedOut_nonneg:
  assumes "0 \<le> ain" "0 \<le> rin" "0 \<le> rout"
  shows "expectedOut ain rin rout = NaN \<or> number_ge (expectedOut ain rin rout) (Finite 0)"
proof -
  have n: "number_ge (Number ain) (Finite 0)" "number_ge (Number rin) (Finite 0)"
    "number_ge (Number rout) (Finite 0)"
    using assms Number_nonneg by (simp_all add: number_ge_zero_iff)
  from number_mul_nonneg [OF n(1) n(3)]
  show ?thesis
  proof
    assume "number_mul (Number ain) (Number rout) = NaN"
    then show ?thesis by (simp add: expectedOut_def)
  next
    assume "number_ge (number_mul (Number ain) (Number rout)) (Finite 0)"
    from number_div_nonneg [OF this n(2)] show ?thesis by (simp add: expectedOut_def)
  qed
qed

lemma Math_abs_number_mul_100:
  "Math_abs (number_mul x (Finite 100)) = number_mul (Math_abs x) (Finite 100)"
  by (cases x) (simp_all add: round_binary64_abs abs_mult)

lemma Math_abs_number_div:
  assumes "e = NaN \<or> number_ge e (Finite 0)"
  shows "Math_abs (number_div x e) = number_div (Math_abs x) e"
  using assms
  by (cases x; cases e) (auto simp: round_binary64_abs abs_divide)

lemma calculatePriceImpact_eq_spec:
  assumes "0 \<le> ain" "0 \<le> rin" "0 \<le> rout"
  shows "calculatePriceImpact ain aout rin rout = Inr (computePriceImpact_spec ain aout rin rout)"
  using expectedOut_nonneg [OF assms]
  by (simp add: calculatePriceImpact_def computePriceImpact_spec_def Let_def
      Math_abs_number_mul_100 Math_abs_number_div)

lemma Math_abs_nonneg: "x \<noteq> NaN \<Longrightarrow> number_ge (Math_abs x) (Finite 0)"
  by (cases x) simp_all

lemma impact_not_NaN:
  assumes "e \<noteq> 0" "a \<noteq> NaN"
  shows "number_mul (number_div (number_sub (Finite e) a) (Finite e)) (Finite 100) \<noteq> NaN"
proof -
  have s: "number_sub (Finite e) a \<noteq> NaN"
    using assms(2) by (cases a) (simp_all add: round_binary64_not_NaN)
  have d: "number_div s' (Finite e) \<noteq> NaN" if "s' \<noteq> NaN" for s'
    using that assms(1) by (cases s') (simp_all add: round_binary64_not_NaN)
  have m: "number_mul d' (Finite 100) \<noteq> NaN" if "d' \<noteq> NaN" for d'
    using that by (cases d') (simp_all add: round_binary64_not_NaN)
  from s d m show ?thesis by blast
qed

lemma round_binary64_le_minus1:
  assumes "x \<le> - 1"
  shows "round_binary64 x = NegInfinity \<or> (\<exists>y. round_binary64 x = Finite y \<and> y \<le> - 1)"
  using assms round_magnitude_ge1 [of "- x"]
  by (auto simp: round_binary64_def abs_if split: option.splits)

lemma number_div_zero_cases:
  "number_div x (Finite 0) = NaN \<or> number_div x (Finite 0) = PosInfinity
   \<or> number_div x (Finite 0) = NegInfinity"
  by (cases x) auto

lemma impact_of_infinite_expected:
  assumes "e = NaN \<or> e = PosInfinity \<or> e = NegInfinity"
  shows "Math_abs (number_mul (number_div (number_sub e a) e) (Finite 100)) = NaN"
  using assms by (cases a) auto

lemma calculatePriceImpact_zero_reserveIn:
  "calculatePriceImpact ain aout 0 rout = Inr NaN"
  unfolding calculatePriceImpact_def expectedOut_def Let_def Number_zero
  using impact_of_infinite_expected [OF number_div_zero_cases] by simp

lemma calculatePriceImpact_zero_expected:
  assumes "0 \<le> aout" "expectedOut ain rin rout = Finite 0"
  shows "calculatePriceImpact ain aout rin rout = Inr (if aout = 0 then NaN else PosInfinity)"
proof (cases "aout = 0")
  case True
  then show ?thesis
    by (simp add: calculatePriceImpact_def Let_def assms(2) Number_zero round_binary64_def)
next
  case False
  with assms(1) have "1 \<le> aout" by simp
  from Number_ge1 [OF this]
  have "number_sub (Finite 0) (Number aout) = NegInfinity
        \<or> (\<exists>z. number_sub (Finite 0) (Number aout) = Finite z \<and> z \<le> - 1)"
  proof
    assume "Number aout = PosInfinity"
    then show ?thesis by simp
  next
    assume "\<exists>y. Number aout = Finite y \<and> 1 \<le> y"
    then obtain y where y: "Number aout = Finite y" "1 \<le> y" by blast
    then show ?thesis using round_binary64_le_minus1 [of "- y"] by simp
  qed
  then have "number_div (number_sub (Finite 0) (Number aout)) (Finite 0) = NegInfinity"
    by auto
  then show ?thesis using False
    by (simp add: calculatePriceImpact_def Let_def assms(2))
qed

lemma calculatePriceImpact_infinite_expected:
  assumes "expectedOut ain rin rout = PosInfinity"
  shows "calculatePriceImpact ain aout rin rout = Inr NaN"
  unfolding calculatePriceImpact_def Let_def assms
  using impact_of_infinite_expected [of PosInfinity] by simp

lemma expectedOut_zero_reserveIn_not_finite: "expectedOut ain 0 rout \<noteq> Finite e"
  using number_div_zero_cases [of "number_mul (Number ain) (Number rout)"]
  by (auto simp: expectedOut_def Number_zero)

text \<open>
  C3, as amended. For unsigned inputs whose \<open>expectedOut\<close>, computed in binary64
  arithmetic, is finite and not zero (so \<open>reserveIn\<close> is not zero),
  \<open>calculatePriceImpact\<close> returns \<open>|expectedOut - amountOut| / expectedOut * 100\<close>
  evaluated in binary64 arithmetic, and the result is non-negative (it may be
  \<open>+Infinity\<close>). When \<open>expectedOut\<close> overflows to \<open>Infinity\<close> the result is \<open>NaN\<close>.
\<close>

theorem calculatePriceImpact_formula_nonneg:
  assumes "0 \<le> ain" "0 \<le> rin" "0 \<le> rout"
  shows "(expectedOut ain rin rout = Finite e \<and> e \<noteq> 0 \<longrightarrow>
           rin \<noteq> 0
           \<and> calculatePriceImpact ain aout rin rout = Inr (computePriceImpact_spec ain aout rin rout)
           \<and> number_ge (computePriceImpact_spec ain aout rin rout) (Finite 0))
       \<and> (expectedOut ain rin rout = PosInfinity \<longrightarrow>
           calculatePriceImpact ain aout rin rout = Inr NaN)"
proof (intro conjI impI)
  assume e: "expectedOut ain rin rout = Finite e \<and> e \<noteq> 0"
  show "rin \<noteq> 0" using e expectedOut_zero_reserveIn_not_finite [of ain rout e] by auto
  show eq: "calculatePriceImpact ain aout rin rout = Inr (computePriceImpact_spec ain aout rin rout)"
    by (rule calculatePriceImpact_eq_spec [OF assms])
  have "number_mul (number_div (number_sub (Finite e) (Number aout)) (Finite e)) (Finite 100) \<noteq> NaN"
    using e Number_not_NaN by (intro impact_not_NaN) simp_all
  then have "number_ge (Math_abs (number_mul (number_div (number_sub (Finite e) (Number aout))
      (Finite e)) (Finite 100))) (Finite 0)"
    by (rule Math_abs_nonneg)
  moreover have "calculatePriceImpact ain aout rin rout
      = Inr (Math_abs (number_mul (number_div (number_sub (Finite e) (Number aout))
      (Finite e)) (Finite 100)))"
    using e by (simp add: calculatePriceImpact_def Let_def)
  ultimately show "number_ge (computePriceImpact_spec ain aout rin rout) (Finite 0)"
    using eq by simp
next
  assume "expectedOut ain rin rout = PosInfinity"
  then show "calculatePriceImpact ain aout rin rout = Inr NaN"
    by (rule calculatePriceImpact_infinite_expected)
qed

theorem calculatePriceImpact_formula_nonneg_witness:
  "(0::int) \<le> 100 \<and> (0::int) \<le> 1000
   \<and> expectedOut 100 1000 1000 = Finite 100 \<and> (100::rat) \<noteq> 0
   \<and> calculatePriceImpact 100 90 1000 1000 = Inr (Finite 10)
   \<and> number_ge (Finite 10) (Finite 0)"
proof -
  have e: "expectedOut 100 1000 1000 = Finite 100" by code_simp
  have s: "computePriceImpact_spec 100 90 1000 1000 = Finite 10" by code_simp
  show ?thesis
    using calculatePriceImpact_formula_nonneg [of 100 1000 1000 100 90] e s by simp
qed

theorem calculatePriceImpact_overflow_counterexample:
  "expectedOut (2 ^ 1024) 1 1 = PosInfinity
   \<and> calculatePriceImpact (2 ^ 1024) 0 1 1 = Inr NaN
   \<and> \<not> number_ge NaN (Finite 0)"
proof -
  have big: "Number (2 ^ 1024) = PosInfinity"
    using round_binary64_overflow [of "2 ^ 1024"] by (simp add: Number_def)
  have one: "Number 1 = Finite 1"
    using round_binary64_exact_int [of 1] by (simp add: Number_def)
  have e: "expectedOut (2 ^ 1024) 1 1 = PosInfinity"
    unfolding expectedOut_def big one by simp
  from calculatePriceImpact_infinite_expected [OF e] e show ?thesis by simp
qed

text \<open>
  C4, as amended. \<open>calculatePriceImpact\<close> signals no error. When \<open>reserveIn\<close> is zero it
  returns \<open>NaN\<close>; when \<open>expectedOut\<close> is zero it returns \<open>NaN\<close> if \<open>amountOut\<close> is zero
  and \<open>+Infinity\<close> otherwise. The caller recognises an undefined impact by a result
  that is not finite.
\<close>

theorem calculatePriceImpact_division_by_zero:
  "calculatePriceImpact ain aout 0 rout = Inr NaN
   \<and> (0 \<le> aout \<and> expectedOut ain rin rout = Finite 0 \<longrightarrow>
        calculatePriceImpact ain aout rin rout = Inr (if aout = 0 then NaN else PosInfinity))
   \<and> (\<exists>v. calculatePriceImpact ain aout rin rout = Inr v)"
  using calculatePriceImpact_zero_reserveIn [of ain aout rout]
    calculatePriceImpact_zero_expected [of aout ain rin rout]
  by (simp add: calculatePriceImpact_def Let_def)

theorem calculatePriceImpact_division_by_zero_witness:
  "(0::int) \<le> 1 \<and> expectedOut 0 1 1 = Finite 0
   \<and> calculatePriceImpact 0 1 1 1 = Inr PosInfinity"
proof -
  have e: "expectedOut 0 1 1 = Finite 0" by code_simp
  show ?thesis
    using calculatePriceImpact_division_by_zero [of 0 1 1 1] e by simp
qed

theorem calculatePriceImpact_no_error_counterexample:
  "calculatePriceImpact 1 1 0 1 = Inr NaN
   \<and> calculatePriceImpact 1 1 0 1 \<noteq> Inl DivisionByZero
   \<and> expectedOut 0 1 1 = Finite 0
   \<and> calculatePriceImpact 0 1 1 1 = Inr PosInfinity"
  by code_simp

section \<open>Virtual reserves and the preview\<close>

lemma updatePreview_returns: "\<exists>st'. updatePreview vendor st = Inr st'"
  by (auto simp: updatePreview_def split: option.splits sum.splits)

lemma updatePreview_skips:
  assumes "initialSupply (formData st) = None \<or> initialSupply (formData st) = Some 0
         \<or> graduationThresholdPct (formData st) = None
         \<or> graduationThresholdPct (formData st) = Some (Finite 0)
         \<or> graduationThresholdPct (formData st) = Some NaN
         \<or> targetRaise (formData st) = None \<or> targetRaise (formData st) = Some 0"
  shows "updatePreview vendor st = Inr st"
  using assms by (auto simp: updatePreview_def split: option.splits)

lemma updatePreview_calls:
  assumes "initialSupply (formData st) = Some supply" "supply \<noteq> 0"
    "graduationThresholdPct (formData st) = Some pct" "truthy pct"
    "targetRaise (formData st) = Some raise" "raise \<noteq> 0"
  shows "updatePreview vendor st =
         (case vendor \<lparr> initialTokenSupply = bigint_toString supply, thresholdPct = pct,
                         targetRaiseSats = bigint_toString raise \<rparr> of
            Inr preview \<Rightarrow> Inr (st\<lparr> previewData := Some preview \<rparr>)
          | Inl err \<Rightarrow> Inr (st\<lparr> consoleErrors := consoleErrors st @ [err] \<rparr>))"
  using assms by (simp add: updatePreview_def)

lemma bigint_toString_zero: "bigint_toString 0 = ''0''"
  by code_simp

lemma bigint_toString_negative: "k < 0 \<Longrightarrow> hd (bigint_toString k) = CHR ''-''"
  by (simp add: bigint_toString_def)

text \<open>
  C2, as amended. For every input that violates an input constraint, in particular for
  every \<open>graduationThresholdPct\<close> outside [50, 95],
  \<open>LaunchpadClient.calculateVirtualReserves\<close> fails with \<open>InvalidParameters\<close> instead of
  returning reserves, provided the SDK function rejects such input with
  \<open>InvalidParameters\<close>: the wrapper has no check of its own and returns or throws
  exactly what the SDK function does. The preview of the launch form never fails and
  stores no reserves for such input: when \<open>initialSupply\<close>, \<open>graduationThresholdPct\<close>
  or \<open>targetRaise\<close> is zero or absent it skips the SDK call and reports nothing;
  otherwise it catches the SDK's \<open>InvalidParameters\<close>, writes it to the console and
  keeps the preview it had.
\<close>

theorem virtual_reserves_validation:
  "calculateVirtualReserves vendor params = vendor params
   \<and> (\<exists>st'. updatePreview vendor st = Inr st')
   \<and> (initialSupply (formData st) = None \<or> initialSupply (formData st) = Some 0
        \<or> graduationThresholdPct (formData st) = None
        \<or> graduationThresholdPct (formData st) = Some (Finite 0)
        \<or> targetRaise (formData st) = None \<or> targetRaise (formData st) = Some 0
      \<longrightarrow> updatePreview vendor st = Inr st)
   \<and> ((\<forall>s p r. \<not> input_constraints s p r \<longrightarrow>
           vendor \<lparr> initialTokenSupply = bigint_toString s, thresholdPct = p,
                    targetRaiseSats = bigint_toString r \<rparr> = Inl InvalidParameters)
      \<longrightarrow> (\<forall>s p r. \<not> input_constraints s p r \<longrightarrow>
             calculateVirtualReserves vendor
               \<lparr> initialTokenSupply = bigint_toString s, thresholdPct = p,
                 targetRaiseSats = bigint_toString r \<rparr> = Inl InvalidParameters
             \<and> (initialSupply (formData st) = Some s
                  \<and> graduationThresholdPct (formData st) = Some p
                  \<and> targetRaise (formData st) = Some r
                \<longrightarrow> updatePreview vendor st =
                      Inr (if s = 0 \<or> \<not> truthy p \<or> r = 0 then st
                           else st\<lparr> consoleErrors := consoleErrors st @ [InvalidParameters] \<rparr>))))"
proof (intro conjI impI allI)
  show "calculateVirtualReserves vendor params = vendor params"
    by (simp add: calculateVirtualReserves_def)
  show "\<exists>st'. updatePreview vendor st = Inr st'" by (rule updatePreview_returns)
next
  assume "initialSupply (formData st) = None \<or> initialSupply (formData st) = Some 0
        \<or> graduationThresholdPct (formData st) = None
        \<or> graduationThresholdPct (formData st) = Some (Finite 0)
        \<or> targetRaise (formData st) = None \<or> targetRaise (formData st) = Some 0"
  then show "updatePreview vendor st = Inr st"
    by (intro updatePreview_skips) blast
next
  fix s p r
  assume contract: "\<forall>s p r. \<not> input_constraints s p r \<longrightarrow>
           vendor \<lparr> initialTokenSupply = bigint_toString s, thresholdPct = p,
                    targetRaiseSats = bigint_toString r \<rparr> = Inl InvalidParameters"
    and bad: "\<not> input_constraints s p r"
  from contract bad
  have rej: "vendor \<lparr> initialTokenSupply = bigint_toString s, thresholdPct = p,
                      targetRaiseSats = bigint_toString r \<rparr> = Inl InvalidParameters"
    by blast
  then show "calculateVirtualReserves vendor
               \<lparr> initialTokenSupply = bigint_toString s, thresholdPct = p,
                 targetRaiseSats = bigint_toString r \<rparr> = Inl InvalidParameters"
    by (simp add: calculateVirtualReserves_def)
  assume "initialSupply (formData st) = Some s
          \<and> graduationThresholdPct (formData st) = Some p
          \<and> targetRaise (formData st) = Some r"
  then show "updatePreview vendor st =
               Inr (if s = 0 \<or> \<not> truthy p \<or> r = 0 then st
                    else st\<lparr> consoleErrors := consoleErrors st @ [InvalidParameters] \<rparr>)"
    using rej by (simp add: updatePreview_def)
qed

theorem virtual_reserves_validation_witness:
  "(let sdk = (\<lambda>p. if initialTokenSupply p = ''0'' \<or> hd (initialTokenSupply p) = CHR ''-''
                        \<or> targetRaiseSats p = ''0'' \<or> hd (targetRaiseSats p) = CHR ''-''
                        \<or> \<not> threshold_in_range (thresholdPct p)
                      then Inl InvalidParameters
                      else Inr \<lparr> virtualReserveA = 1, virtualReserveB = 2, threshold = 3 \<rparr>)
    in \<not> input_constraints 1000000 (Finite 10) 100000000
       \<and> calculateVirtualReserves sdk
            \<lparr> initialTokenSupply = bigint_toString 1000000, thresholdPct = Finite 10,
              targetRaiseSats = bigint_toString 100000000 \<rparr> = Inl InvalidParameters
       \<and> calculateVirtualReserves sdk
            \<lparr> initialTokenSupply = ''1000000'', thresholdPct = Finite 80,
              targetRaiseSats = ''100000000'' \<rparr>
          = Inr \<lparr> virtualReserveA = 1, virtualReserveB = 2, threshold = 3 \<rparr>
       \<and> \<not> input_constraints 1000000 (Finite 80) (- 100000000)
       \<and> updatePreview sdk
            (initialFormState\<lparr> formData := initialFormData\<lparr> targetRaise := Some (- 100000000) \<rparr> \<rparr>)
          = Inr (initialFormState\<lparr> formData := initialFormData\<lparr> targetRaise := Some (- 100000000) \<rparr>,
                                   consoleErrors := [InvalidParameters] \<rparr>)
       \<and> updatePreview sdk
            (initialFormState\<lparr> formData := initialFormData\<lparr> targetRaise := Some 0 \<rparr> \<rparr>)
          = Inr (initialFormState\<lparr> formData := initialFormData\<lparr> targetRaise := Some 0 \<rparr> \<rparr>))"
proof -
  define sdk :: vendor_fn where
    "sdk = (\<lambda>p. if initialTokenSupply p = ''0'' \<or> hd (initialTokenSupply p) = CHR ''-''
                    \<or> targetRaiseSats p = ''0'' \<or> hd (targetRaiseSats p) = CHR ''-''
                    \<or> \<not> threshold_in_range (thresholdPct p)
                  then Inl InvalidParameters
                  else Inr \<lparr> virtualReserveA = 1, virtualReserveB = 2, threshold = 3 \<rparr>)"
  have low: "bigint_toString k = ''0'' \<or> hd (bigint_toString k) = CHR ''-''" if "\<not> 1 \<le> k" for k
  proof (cases "k = 0")
    case True
    then show ?thesis by (simp add: bigint_toString_zero)
  next
    case False
    with that have "k < 0" by simp
    then show ?thesis by (simp add: bigint_toString_negative)
  qed
  have contract: "\<forall>s p r. \<not> input_constraints s p r \<longrightarrow>
      sdk \<lparr> initialTokenSupply = bigint_toString s, thresholdPct = p,
            targetRaiseSats = bigint_toString r \<rparr> = Inl InvalidParameters"
  proof (intro allI impI)
    fix s p r
    assume "\<not> input_constraints s p r"
    then have "\<not> 1 \<le> s \<or> \<not> threshold_in_range p \<or> \<not> 1 \<le> r"
      by (simp add: input_constraints_def)
    then have "bigint_toString s = ''0'' \<or> hd (bigint_toString s) = CHR ''-''
        \<or> bigint_toString r = ''0'' \<or> hd (bigint_toString r) = CHR ''-''
        \<or> \<not> threshold_in_range p"
      using low [of s] low [of r] by blast
    then show "sdk \<lparr> initialTokenSupply = bigint_toString s, thresholdPct = p,
              targetRaiseSats = bigint_toString r \<rparr> = Inl InvalidParameters"
      unfolding sdk_def by (simp only: reserve_params.simps if_True)
  qed
  have bad1: "\<not> input_constraints 1000000 (Finite 10) 100000000"
    and bad2: "\<not> input_constraints 1000000 (Finite 80) (- 100000000)"
    by (simp_all add: input_constraints_def threshold_in_range_def)
  have ok: "calculateVirtualReserves sdk
            \<lparr> initialTokenSupply = ''1000000'', thresholdPct = Finite 80,
              targetRaiseSats = ''100000000'' \<rparr>
          = Inr \<lparr> virtualReserveA = 1, virtualReserveB = 2, threshold = 3 \<rparr>"
    by (simp add: calculateVirtualReserves_def sdk_def threshold_in_range_def)
  define st1 where
    "st1 = initialFormState\<lparr> formData := initialFormData\<lparr> targetRaise := Some (- 100000000) \<rparr> \<rparr>"
  define st0 where
    "st0 = initialFormState\<lparr> formData := initialFormData\<lparr> targetRaise := Some 0 \<rparr> \<rparr>"
  note rejected = virtual_reserves_validation
      [of sdk _ st1, THEN conjunct2, THEN conjunct2, THEN conjunct2, THEN mp, OF contract,
       rule_format]
  have a: "calculateVirtualReserves sdk
            \<lparr> initialTokenSupply = bigint_toString 1000000, thresholdPct = Finite 10,
              targetRaiseSats = bigint_toString 100000000 \<rparr> = Inl InvalidParameters"
    by (rule rejected [OF bad1, THEN conjunct1])
  have f1: "initialSupply (formData st1) = Some 1000000
            \<and> graduationThresholdPct (formData st1) = Some (Finite 80)
            \<and> targetRaise (formData st1) = Some (- 100000000)"
    by (simp add: st1_def initialFormState_def initialFormData_def)
  have "updatePreview sdk st1 = Inr (st1\<lparr> consoleErrors := consoleErrors st1 @ [InvalidParameters] \<rparr>)"
    using rejected [OF bad2, THEN conjunct2, THEN mp, OF f1] by simp
  then have b: "updatePreview sdk
            (initialFormState\<lparr> formData := initialFormData\<lparr> targetRaise := Some (- 100000000) \<rparr> \<rparr>)
          = Inr (initialFormState\<lparr> formData := initialFormData\<lparr> targetRaise := Some (- 100000000) \<rparr>,
                                   consoleErrors := [InvalidParameters] \<rparr>)"
    by (simp add: st1_def initialFormState_def)
  have f0: "initialSupply (formData st0) = None \<or> initialSupply (formData st0) = Some 0
        \<or> graduationThresholdPct (formData st0) = None
        \<or> graduationThresholdPct (formData st0) = Some (Finite 0)
        \<or> targetRaise (formData st0) = None \<or> targetRaise (formData st0) = Some 0"
    by (simp add: st0_def)
  have c: "updatePreview sdk
            (initialFormState\<lparr> formData := initialFormData\<lparr> targetRaise := Some 0 \<rparr> \<rparr>)
          = Inr (initialFormState\<lparr> formData := initialFormData\<lparr> targetRaise := Some 0 \<rparr> \<rparr>)"
    using virtual_reserves_validation
      [of sdk _ st0, THEN conjunct2, THEN conjunct2, THEN conjunct1, THEN mp, OF f0]
    by (simp only: st0_def)
  show ?thesis
    unfolding Let_def using bad1 bad2 ok a b c unfolding sdk_def
    by (intro conjI) assumption+
qed

theorem updatePreview_zero_raise_counterexample:
  "\<not> input_constraints 1000000 (Finite 80) 0
   \<and> updatePreview (\<lambda>p. Inl InvalidParameters)
        (initialFormState\<lparr> formData := initialFormData\<lparr> targetRaise := Some 0 \<rparr> \<rparr>)
      = Inr (initialFormState\<lparr> formData := initialFormData\<lparr> targetRaise := Some 0 \<rparr> \<rparr>)
   \<and> updatePreview (\<lambda>p. Inr \<lparr> virtualReserveA = 1, virtualReserveB = 2, threshold = 3 \<rparr>)
        (initialFormState\<lparr> formData := initialFormData\<lparr> targetRaise := Some 0 \<rparr> \<rparr>)
      = Inr (initialFormState\<lparr> formData := initialFormData\<lparr> targetRaise := Some 0 \<rparr> \<rparr>)"
  by (simp add: input_constraints_def updatePreview_def initialFormState_def initialFormData_def)

text \<open>
  The results are those of binary64 arithmetic, not of the exact quotient: an expected
  output of \<open>1/3\<close> against an actual output of \<open>1\<close> gives a little more than \<open>200\<close>.
\<close>

lemma calculatePriceImpact_rounds:
  "calculatePriceImpact 1 1 3 1 = Inr (Finite (3518437208883201 / 17592186044416))"
  by code_simp

end
